theory Spec2Isabelle
  imports Complex_Main
begin

section \<open>Entities of dataherald/types.py\<close>

text \<open>
  The pydantic models are records. A field of type \<open>T | None\<close> is an option, a
  \<open>dict\<close> is an association list of strings, a \<open>datetime\<close> is a number of clock
  ticks, a Python \<open>int\<close> is an \<open>int\<close> and a \<open>float\<close> is carried as a \<open>real\<close>
  (no arithmetic is done on it here). Field names carry a short prefix of their class,
  since several classes have the fields \<open>id\<close>, \<open>db_connection_id\<close>, \<open>metadata\<close>.
\<close>

type_synonym datetime = nat

type_synonym dict = "(string \<times> string) list"

datatype error =
    ValueError string
  | ValidationError "(string \<times> string) list"
  | MalformedGoldenSQLError string
  | KeyError string
  | AttributeError string

record GoldenSQL =
  gs_id :: "string option"
  gs_prompt_text :: string
  gs_sql :: string
  gs_db_connection_id :: string
  gs_created_at :: datetime
  gs_metadata :: "dict option"

record Instruction =
  in_id :: "string option"
  in_instruction :: string
  in_db_connection_id :: string
  in_created_at :: datetime
  in_metadata :: "dict option"

record Prompt =
  pr_id :: "string option"
  pr_text :: string
  pr_db_connection_id :: string
  pr_created_at :: datetime
  pr_metadata :: "dict option"

text \<open>
  \<open>DBConnectionValidation\<close> and its subclass \<open>GoldenSQLRequest\<close>, with the fields
  types.py declares: \<open>db_connection_id\<close>, \<open>question\<close>, \<open>sql_query\<close>, \<open>created_at\<close>,
  \<open>metadata\<close> (the last four with the prefix \<open>gr\<close> here). The two texts are
  \<open>Field(None, min_length=3)\<close>, so they may be \<open>None\<close>.
\<close>

record DBConnectionValidation =
  db_connection_id :: string

record GoldenSQLRequest = DBConnectionValidation +
  gr_question :: "string option"
  gr_sql_query :: "string option"
  gr_created_at :: datetime
  gr_metadata :: "dict option"

text \<open>
  Modelled from the spec: \<open>ContextFile\<close> is imported by default.py from dataherald.types
  but is not declared in the types.py at hand; the spec gives it as
  \<open>{id, file_name, db_connection_id}\<close>.
\<close>

record ContextFile =
  cf_id :: string
  cf_file_name :: string
  cf_db_connection_id :: string

section \<open>The two collaborators: record repository and vector index\<close>

text \<open>
  One entry of a vector-index collection: its identifier, the embedded text, the
  connection partition and the metadata dictionary.
\<close>

record vector_record =
  vr_id :: string
  vr_text :: string
  vr_db_connection_id :: string
  vr_metadata :: dict

text \<open>One element of a query result: the dictionary with keys id, score, metadata.\<close>

record match =
  m_id :: string
  m_score :: real
  m_metadata :: dict

text \<open>Every call on a collaborator and every log line is recorded, in order.\<close>

datatype event =
    LogInfo string
  | LogWarning string
  | VectorQuery string string string int
  | VectorAddRecords "GoldenSQL list" string
  | VectorAddRecord string string string dict string
  | VectorDeleteRecord string string
  | VectorDeleteByMetadata string dict
  | RepoFindById string
  | RepoFindAll
  | RepoInsert GoldenSQL
  | RepoDeleteById string

text \<open>
  The state a \<open>DefaultContextStore\<close> works on: the golden-SQL and instruction
  collections of \<open>self.db\<close>, the collections of \<open>self.vector_store\<close> by name, the two
  collection names, the number of identifiers the repository has handed out, the number
  of clock reads, and the trace of events.
\<close>

record context_store =
  golden_sqls_db :: "GoldenSQL list"
  instructions_db :: "Instruction list"
  vector_store :: "string \<Rightarrow> vector_record list"
  golden_sql_collection :: string
  context_files_collection :: string
  issued :: nat
  ticks :: nat
  trace :: "event list"

text \<open>
  What the code takes from outside the repository: whether \<open>Parser(sql).tables\<close> of
  sql_metadata returns without raising, whether bson's \<open>ObjectId(v)\<close> returns without
  raising \<open>InvalidId\<close>, the identifier the database gives to the n-th
  inserted document, the value of the n-th \<open>datetime.now()\<close>, the similarity search of
  the vector index, and langchain's \<open>RecursiveCharacterTextSplitter\<close> as a function of
  chunk size, chunk overlap and content.
\<close>

record world =
  sql_parses :: "string \<Rightarrow> bool"
  object_id_valid :: "string \<Rightarrow> bool"
  new_object_id :: "nat \<Rightarrow> string"
  now :: "nat \<Rightarrow> datetime"
  similar :: "vector_record list \<Rightarrow> string \<Rightarrow> string \<Rightarrow> int \<Rightarrow> match list"
  split_text :: "nat \<Rightarrow> nat \<Rightarrow> string \<Rightarrow> string list"

definition emit :: "event \<Rightarrow> context_store \<Rightarrow> context_store" where
  "emit e s = s\<lparr>trace := trace s @ [e]\<rparr>"

subsection \<open>Record repository\<close>

text \<open>
  \<open>GoldenSQLRepository\<close> and \<open>InstructionRepository\<close> are not among the sources. Their
  operations follow the contract the spec gives for the Record Repository; each records
  its call in the trace.
\<close>

text \<open>
  Modelled from the spec: \<open>GoldenSQLRepository.insert\<close> is not among the sources; the
  spec gives \<open>insert(entity) \<rightarrow> entity_with_id\<close>, which persists the entity and assigns
  its identifier.
\<close>

definition repo_insert :: "world \<Rightarrow> GoldenSQL \<Rightarrow> context_store \<Rightarrow> GoldenSQL \<times> context_store" where
  "repo_insert w g s =
     (let g' = g\<lparr>gs_id := Some (new_object_id w (issued s))\<rparr>
      in (g', emit (RepoInsert g')
                (s\<lparr>golden_sqls_db := golden_sqls_db s @ [g'], issued := Suc (issued s)\<rparr>)))"

text \<open>
  Modelled from the spec: \<open>GoldenSQLRepository.find_by_id\<close> is not among the sources; the
  spec gives \<open>find_by_id(id) \<rightarrow> entity | absent\<close>.
\<close>

definition repo_find_by_id :: "string \<Rightarrow> context_store \<Rightarrow> GoldenSQL option \<times> context_store" where
  "repo_find_by_id i s =
     (find (\<lambda>g. gs_id g = Some i) (golden_sqls_db s), emit (RepoFindById i) s)"

text \<open>
  Modelled from the spec: \<open>InstructionRepository.find_all\<close> is not among the sources; the
  spec gives \<open>find_all() \<rightarrow> sequence<entity>\<close>.
\<close>

definition repo_find_all :: "context_store \<Rightarrow> Instruction list \<times> context_store" where
  "repo_find_all s = (instructions_db s, emit RepoFindAll s)"

text \<open>
  Modelled from the spec: \<open>GoldenSQLRepository.delete_by_id\<close> is not among the sources;
  the spec gives \<open>delete_by_id(id) \<rightarrow> count_deleted\<close>, zero when the id was already
  absent.
\<close>

definition repo_delete_by_id :: "string \<Rightarrow> context_store \<Rightarrow> nat \<times> context_store" where
  "repo_delete_by_id i s =
     (length (filter (\<lambda>g. gs_id g = Some i) (golden_sqls_db s)),
      emit (RepoDeleteById i)
        (s\<lparr>golden_sqls_db := filter (\<lambda>g. gs_id g \<noteq> Some i) (golden_sqls_db s)\<rparr>))"

subsection \<open>Vector index\<close>

text \<open>
  The vector store is not among the sources either. Its operations follow the contract
  the spec gives for the Vector Index; each records its call in the trace. The ranking of
  a query is \<open>similar\<close> of the world.
\<close>

text \<open>
  Modelled from the spec: what the vector store does with an identifier already present
  is not among the sources; the spec says that re-ingesting under the same identifier
  overwrites rather than duplicates.
\<close>

fun upsert :: "vector_record \<Rightarrow> vector_record list \<Rightarrow> vector_record list" where
  "upsert r [] = [r]"
| "upsert r (x # xs) = (if vr_id x = vr_id r then r # xs else x # upsert r xs)"

text \<open>
  Modelled from the spec: \<open>vector_store.add_record\<close> is not among the sources; the spec
  gives \<open>add_record(text, connection_id, collection, metadata, ids)\<close>. The code passes
  one metadata dictionary and one identifier, each in a list of its own.
\<close>

definition vs_add_record ::
  "string \<Rightarrow> string \<Rightarrow> string \<Rightarrow> dict \<Rightarrow> string \<Rightarrow> context_store \<Rightarrow> context_store" where
  "vs_add_record text conn coll md ident s =
     emit (VectorAddRecord text conn coll md ident)
       (s\<lparr>vector_store := (vector_store s)
            (coll := upsert \<lparr>vr_id = ident, vr_text = text, vr_db_connection_id = conn,
                              vr_metadata = md\<rparr> (vector_store s coll))\<rparr>)"

text \<open>
  Modelled from the spec: the entry \<open>add_records\<close> makes of a golden SQL is not among the
  sources; the spec says the examples are inserted keyed by their assigned identifiers,
  embedded by their question text, in the partition of their connection.
\<close>

definition golden_vector_record :: "GoldenSQL \<Rightarrow> vector_record" where
  "golden_vector_record g =
     \<lparr>vr_id = (case gs_id g of None \<Rightarrow> ''None'' | Some i \<Rightarrow> i),
      vr_text = gs_prompt_text g,
      vr_db_connection_id = gs_db_connection_id g,
      vr_metadata = [(''db_connection_id'', gs_db_connection_id g)]\<rparr>"

text \<open>
  Modelled from the spec: \<open>vector_store.add_records\<close> is not among the sources; the spec
  gives \<open>add_records(entities, collection)\<close>, a batch insert.
\<close>

definition vs_add_records :: "GoldenSQL list \<Rightarrow> string \<Rightarrow> context_store \<Rightarrow> context_store" where
  "vs_add_records gs coll s =
     emit (VectorAddRecords gs coll)
       (s\<lparr>vector_store := (vector_store s)
            (coll := fold (\<lambda>g. upsert (golden_vector_record g)) gs (vector_store s coll))\<rparr>)"

text \<open>
  Modelled from the spec: \<open>vector_store.query\<close> is not among the sources; the spec gives
  \<open>query(query_texts, db_connection_id, collection, num_results)\<close>, returning a ranked
  sequence of \<open>{id, score, metadata}\<close> and changing nothing.
\<close>

definition vs_query ::
  "world \<Rightarrow> string \<Rightarrow> string \<Rightarrow> string \<Rightarrow> int \<Rightarrow> context_store \<Rightarrow> match list \<times> context_store" where
  "vs_query w text conn coll k s =
     (similar w (vector_store s coll) text conn k, emit (VectorQuery text conn coll k) s)"

text \<open>
  Modelled from the spec: \<open>vector_store.delete_record\<close> is not among the sources; the spec
  gives \<open>delete_record(collection, id)\<close>.
\<close>

definition vs_delete_record :: "string \<Rightarrow> string \<Rightarrow> context_store \<Rightarrow> context_store" where
  "vs_delete_record coll i s =
     emit (VectorDeleteRecord coll i)
       (s\<lparr>vector_store := (vector_store s)
            (coll := filter (\<lambda>r. vr_id r \<noteq> i) (vector_store s coll))\<rparr>)"

text \<open>
  Modelled from the spec: how a metadata predicate selects entries is not among the
  sources; the spec says the chunks whose metadata match are deleted. An entry matches
  when it has every key of the given dictionary with the given value.
\<close>

definition metadata_matches :: "dict \<Rightarrow> vector_record \<Rightarrow> bool" where
  "metadata_matches md r = list_all (\<lambda>(k, v). map_of (vr_metadata r) k = Some v) md"

text \<open>
  Modelled from the spec: \<open>vector_store.delete_record_by_metadata\<close> is not among the
  sources; the spec gives \<open>delete_record_by_metadata(collection, metadata_predicate)\<close>.
\<close>

definition vs_delete_record_by_metadata :: "string \<Rightarrow> dict \<Rightarrow> context_store \<Rightarrow> context_store" where
  "vs_delete_record_by_metadata coll md s =
     emit (VectorDeleteByMetadata coll md)
       (s\<lparr>vector_store := (vector_store s)
            (coll := filter (\<lambda>r. \<not> metadata_matches md r) (vector_store s coll))\<rparr>)"

section \<open>DefaultContextStore (dataherald/context_store/default.py)\<close>

subsection \<open>add_golden_sqls\<close>

text \<open>
  \<open>add_golden_sqls\<close> reads \<open>record.sql\<close> and \<open>record.prompt_text\<close>. The class
  \<open>GoldenSQLRequest\<close> declares neither attribute (its fields are \<open>question\<close> and
  \<open>sql_query\<close>), so each of these reads raises \<open>AttributeError\<close>, whatever the request.
\<close>

definition attr_sql :: "GoldenSQLRequest \<Rightarrow> error + string" where
  "attr_sql record = Inl (AttributeError ''sql'')"

definition attr_prompt_text :: "GoldenSQLRequest \<Rightarrow> error + string" where
  "attr_prompt_text record = Inl (AttributeError ''prompt_text'')"

text \<open>
  The body of the \<open>try\<close>: \<open>Parser(record.sql).tables\<close> raises when the attribute read
  raises or when the parser does.
\<close>

definition parse_raises :: "world \<Rightarrow> GoldenSQLRequest \<Rightarrow> bool" where
  "parse_raises w record =
     (case attr_sql record of Inl e \<Rightarrow> True | Inr q \<Rightarrow> \<not> sql_parses w q)"

text \<open>
  The loop of \<open>add_golden_sqls\<close>. When the \<open>try\<close> raises, the handler builds the
  message of \<open>MalformedGoldenSQLError\<close> from \<open>record.sql\<close>, and an exception of that
  read is the one that leaves the call. Otherwise the request is turned into a
  \<open>GoldenSQL\<close> (its \<open>created_at\<close> read from the clock) and inserted into the repository
  at once. The state comes back in every case, as the exception leaves it.
\<close>

fun add_golden_sqls_loop ::
  "world \<Rightarrow> GoldenSQLRequest list \<Rightarrow> GoldenSQL list \<Rightarrow> context_store
    \<Rightarrow> (error + GoldenSQL list) \<times> context_store" where
  "add_golden_sqls_loop w [] stored s = (Inr stored, s)"
| "add_golden_sqls_loop w (record # rest) stored s =
     (if parse_raises w record
      then (case attr_sql record of
              Inl e \<Rightarrow> (Inl e, s)
            | Inr q \<Rightarrow>
                (Inl (MalformedGoldenSQLError
                       (''SQL '' @ q @ '' is malformed. Please check the syntax.'')), s))
      else
        (case attr_prompt_text record of
           Inl e \<Rightarrow> (Inl e, s)
         | Inr prompt_text \<Rightarrow>
             (case attr_sql record of
                Inl e \<Rightarrow> (Inl e, s)
              | Inr q \<Rightarrow>
                  let golden_sql = \<lparr>gs_id = None, gs_prompt_text = prompt_text,
                                    gs_sql = q,
                                    gs_db_connection_id = db_connection_id record,
                                    gs_created_at = now w (ticks s),
                                    gs_metadata = gr_metadata record\<rparr>;
                      (inserted, s') = repo_insert w golden_sql (s\<lparr>ticks := Suc (ticks s)\<rparr>)
                  in add_golden_sqls_loop w rest (stored @ [inserted]) s')))"

definition add_golden_sqls ::
  "world \<Rightarrow> GoldenSQLRequest list \<Rightarrow> context_store \<Rightarrow> (error + GoldenSQL list) \<times> context_store" where
  "add_golden_sqls w golden_sqls s =
     (case add_golden_sqls_loop w golden_sqls [] s of
        (Inl e, s') \<Rightarrow> (Inl e, s')
      | (Inr stored_golden_sqls, s') \<Rightarrow>
          (Inr stored_golden_sqls,
           vs_add_records stored_golden_sqls (golden_sql_collection s') s'))"

subsection \<open>retrieve_context_for_question\<close>

text \<open>The dictionary with keys prompt_text, sql, score appended for each resolved match.\<close>

record sample =
  sa_prompt_text :: string
  sa_sql :: string
  sa_score :: real

fun resolve_samples ::
  "match list \<Rightarrow> sample list \<Rightarrow> context_store \<Rightarrow> sample list \<times> context_store" where
  "resolve_samples [] samples s = (samples, s)"
| "resolve_samples (question # rest) samples s =
     (case repo_find_by_id (m_id question) s of
        (None, s') \<Rightarrow> resolve_samples rest samples s'
      | (Some golden_sql, s') \<Rightarrow>
          resolve_samples rest
            (samples @ [\<lparr>sa_prompt_text = gs_prompt_text golden_sql,
                          sa_sql = gs_sql golden_sql,
                          sa_score = m_score question\<rparr>]) s')"

fun select_instructions :: "Prompt \<Rightarrow> Instruction list \<Rightarrow> dict list \<Rightarrow> dict list" where
  "select_instructions prompt [] instructions = instructions"
| "select_instructions prompt (instruction # rest) instructions =
     (if in_db_connection_id instruction = pr_db_connection_id prompt
      then select_instructions prompt rest
             (instructions @ [[(''instruction'', in_instruction instruction)]])
      else select_instructions prompt rest instructions)"

definition retrieve_context_for_question ::
  "world \<Rightarrow> Prompt \<Rightarrow> int \<Rightarrow> context_store
    \<Rightarrow> (sample list option \<times> dict list option) \<times> context_store" where
  "retrieve_context_for_question w prompt number_of_samples s =
     (let s1 = emit (LogInfo (''Getting context for '' @ pr_text prompt)) s;
          (closest_questions, s2) =
             vs_query w (pr_text prompt) (pr_db_connection_id prompt)
               (golden_sql_collection s1) number_of_samples s1;
          (samples, s3) = resolve_samples closest_questions [] s2;
          samples' = (if length samples = 0 then None else Some samples);
          (all_instructions, s4) = repo_find_all s3;
          instructions = select_instructions prompt all_instructions [];
          instructions' = (if length instructions = 0 then None else Some instructions)
      in ((samples', instructions'), s4))"

subsection \<open>remove_golden_sqls\<close>

fun remove_golden_sqls :: "string list \<Rightarrow> context_store \<Rightarrow> bool \<times> context_store" where
  "remove_golden_sqls [] s = (True, s)"
| "remove_golden_sqls (ident # ids) s =
     (let s1 = vs_delete_record (golden_sql_collection s) ident s;
          (deleted, s2) = repo_delete_by_id ident s1;
          s3 = (if deleted = 0
                then emit (LogWarning (''Golden record with id '' @ ident @ '' not found'')) s2
                else s2)
      in remove_golden_sqls ids s3)"

subsection \<open>add_context_file\<close>

text \<open>Python's \<open>str\<close> of a non-negative integer: its decimal digits.\<close>

definition digit :: "nat \<Rightarrow> char" where
  "digit d = char_of (48 + d)"

function str_nat :: "nat \<Rightarrow> string" where
  "str_nat n = (if n < 10 then [digit n] else str_nat (n div 10) @ [digit (n mod 10)])"
  by pat_completeness auto
termination
  by (relation "measure (\<lambda>n. n)") auto

declare str_nat.simps [simp del]

text \<open>The loop over \<open>enumerate(texts)\<close>, the index carried along.\<close>

fun add_chunks :: "ContextFile \<Rightarrow> nat \<Rightarrow> string list \<Rightarrow> context_store \<Rightarrow> context_store" where
  "add_chunks context_file index [] s = s"
| "add_chunks context_file index (text # rest) s =
     add_chunks context_file (Suc index) rest
       (vs_add_record text (cf_db_connection_id context_file) (context_files_collection s)
          [(''file_name'', cf_file_name context_file),
           (''db_connection_id'', cf_db_connection_id context_file),
           (''text'', text)]
          (cf_id context_file @ str_nat index) s)"

definition add_context_file ::
  "world \<Rightarrow> ContextFile \<Rightarrow> string \<Rightarrow> context_store \<Rightarrow> bool \<times> context_store" where
  "add_context_file w context_file content s =
     (let s1 = emit (LogInfo (''Adding context file '' @ cf_file_name context_file)) s;
          texts = split_text w 1000 50 content;
          s2 = emit (LogInfo (''Number of chunks: '' @ str_nat (length texts))) s1
      in (True, add_chunks context_file 0 texts s2))"

subsection \<open>delete_context_file\<close>

definition delete_context_file :: "ContextFile \<Rightarrow> context_store \<Rightarrow> bool \<times> context_store" where
  "delete_context_file context_file s =
     (True, vs_delete_record_by_metadata (context_files_collection s)
              [(''file_name'', cf_file_name context_file)] s)"

subsection \<open>retrieve_context_files\<close>

text \<open>
  \<open>context_file['metadata']['text']\<close> raises \<open>KeyError\<close> on a match whose metadata has
  no \<open>text\<close> key; each text found is appended with a newline after it.
\<close>

fun join_texts :: "match list \<Rightarrow> string \<Rightarrow> error + string" where
  "join_texts [] text_content = Inr text_content"
| "join_texts (context_file # rest) text_content =
     (case map_of (m_metadata context_file) ''text'' of
        None \<Rightarrow> Inl (KeyError ''text'')
      | Some t \<Rightarrow> join_texts rest (text_content @ t @ [CHR 0x0A]))"

definition retrieve_context_files ::
  "world \<Rightarrow> Prompt \<Rightarrow> int \<Rightarrow> context_store \<Rightarrow> (error + string) \<times> context_store" where
  "retrieve_context_files w prompt num_results s =
     (let (context_files, s1) =
             vs_query w (pr_text prompt) (pr_db_connection_id prompt)
               (context_files_collection s) num_results s
      in (join_texts context_files [], s1))"

section \<open>Validation and generation status (dataherald/types.py)\<close>

subsection \<open>DBConnectionValidation and the request classes\<close>

definition object_id_validation :: "world \<Rightarrow> string \<Rightarrow> error + string" where
  "object_id_validation w v =
     (if object_id_valid w v then Inr v else Inl (ValueError ''Must be a valid ObjectId''))"

text \<open>
  pydantic runs the validator of each field when a model is built, collects the
  failures by field name, and raises one \<open>ValidationError\<close> when there is any.
  A \<open>Field(None, min_length=3)\<close> is checked only when a value is given.
\<close>

definition check_connection_id :: "world \<Rightarrow> string \<Rightarrow> (string \<times> string) list" where
  "check_connection_id w v =
     (case object_id_validation w v of
        Inl (ValueError msg) \<Rightarrow> [(''db_connection_id'', msg)]
      | _ \<Rightarrow> [])"

definition check_min_length :: "string \<Rightarrow> nat \<Rightarrow> string option \<Rightarrow> (string \<times> string) list" where
  "check_min_length field n v =
     (case v of
        None \<Rightarrow> []
      | Some t \<Rightarrow>
          if length t < n
          then [(field, ''ensure this value has at least '' @ str_nat n @ '' characters'')]
          else [])"

definition build :: "(string \<times> string) list \<Rightarrow> 'a \<Rightarrow> error + 'a" where
  "build errors model = (if errors = [] then Inr model else Inl (ValidationError errors))"

record InstructionRequest = DBConnectionValidation +
  instruction :: "string option"
  ir_metadata :: "dict option"

record ScannerRequest = DBConnectionValidation +
  table_names :: "string list option"
  sr_metadata :: "dict option"

record BaseLLM =
  model_provider :: "string option"
  model_name :: "string option"
  model_parameters :: "dict option"

record FineTuningRequest =
  ft_db_connection_id :: string
  ft_alias :: string
  ft_base_llm :: BaseLLM
  ft_golden_sqls :: "string list option"
  ft_metadata :: "dict option"

definition new_DBConnectionValidation :: "world \<Rightarrow> string \<Rightarrow> error + DBConnectionValidation" where
  "new_DBConnectionValidation w v =
     build (check_connection_id w v) \<lparr>db_connection_id = v\<rparr>"

definition new_InstructionRequest ::
  "world \<Rightarrow> string \<Rightarrow> string option \<Rightarrow> dict option \<Rightarrow> error + InstructionRequest" where
  "new_InstructionRequest w v text md =
     build (check_connection_id w v @ check_min_length ''instruction'' 3 text)
       \<lparr>db_connection_id = v, instruction = text, ir_metadata = md\<rparr>"

definition new_GoldenSQLRequest ::
  "world \<Rightarrow> datetime \<Rightarrow> string \<Rightarrow> string option \<Rightarrow> string option \<Rightarrow> datetime option
    \<Rightarrow> dict option \<Rightarrow> error + GoldenSQLRequest" where
  "new_GoldenSQLRequest w clock v q sq created md =
     build (check_connection_id w v @ check_min_length ''question'' 3 q
              @ check_min_length ''sql_query'' 3 sq)
       \<lparr>db_connection_id = v, gr_question = q, gr_sql_query = sq,
        gr_created_at = (case created of None \<Rightarrow> clock | Some t \<Rightarrow> t),
        gr_metadata = md\<rparr>"

definition new_ScannerRequest ::
  "world \<Rightarrow> string \<Rightarrow> string list option \<Rightarrow> dict option \<Rightarrow> error + ScannerRequest" where
  "new_ScannerRequest w v tables md =
     build (check_connection_id w v)
       \<lparr>db_connection_id = v, table_names = tables, sr_metadata = md\<rparr>"

definition new_FineTuningRequest ::
  "world \<Rightarrow> string \<Rightarrow> string \<Rightarrow> BaseLLM \<Rightarrow> string list option \<Rightarrow> dict option
    \<Rightarrow> error + FineTuningRequest" where
  "new_FineTuningRequest w v alias llm gs md =
     build [] \<lparr>ft_db_connection_id = v, ft_alias = alias, ft_base_llm = llm,
               ft_golden_sqls = gs, ft_metadata = md\<rparr>"

subsection \<open>SQLGenerationStatus and SQLGeneration\<close>

datatype SQLGenerationStatus = NONE | VALID | INVALID

fun status_value :: "SQLGenerationStatus \<Rightarrow> string" where
  "status_value NONE = ''NONE''"
| "status_value VALID = ''VALID''"
| "status_value INVALID = ''INVALID''"

record SQLGeneration =
  sg_id :: "string option"
  sg_prompt_id :: string
  sg_model :: "string option"
  sg_evaluate :: bool
  sg_sql :: "string option"
  sg_status :: string
  sg_completed_at :: "datetime option"
  sg_tokens_used :: "int option"
  sg_confidence_score :: "real option"
  sg_error :: "string option"
  sg_created_at :: datetime
  sg_metadata :: "dict option"

text \<open>
  Building a \<open>SQLGeneration\<close>: \<open>prompt_id\<close> is required; an argument that is not given
  (\<open>None\<close> below) takes the default of its field: \<open>False\<close> for \<open>evaluate\<close>,
  \<open>"INVALID"\<close> for \<open>status\<close>, the clock for \<open>created_at\<close>, \<open>None\<close> for the others.
\<close>

record SQLGeneration_args =
  arg_id :: "string option"
  arg_prompt_id :: string
  arg_model :: "string option"
  arg_evaluate :: "bool option"
  arg_sql :: "string option"
  arg_status :: "string option"
  arg_completed_at :: "datetime option"
  arg_tokens_used :: "int option"
  arg_confidence_score :: "real option"
  arg_error :: "string option"
  arg_created_at :: "datetime option"
  arg_metadata :: "dict option"

definition new_SQLGeneration :: "datetime \<Rightarrow> SQLGeneration_args \<Rightarrow> SQLGeneration" where
  "new_SQLGeneration clock a =
     \<lparr>sg_id = arg_id a,
      sg_prompt_id = arg_prompt_id a,
      sg_model = arg_model a,
      sg_evaluate = (case arg_evaluate a of None \<Rightarrow> False | Some b \<Rightarrow> b),
      sg_sql = arg_sql a,
      sg_status = (case arg_status a of None \<Rightarrow> ''INVALID'' | Some st \<Rightarrow> st),
      sg_completed_at = arg_completed_at a,
      sg_tokens_used = arg_tokens_used a,
      sg_confidence_score = arg_confidence_score a,
      sg_error = arg_error a,
      sg_created_at = (case arg_created_at a of None \<Rightarrow> clock | Some t \<Rightarrow> t),
      sg_metadata = arg_metadata a\<rparr>"

text \<open>The arguments with only \<open>prompt_id\<close> given.\<close>

definition only_prompt_id :: "string \<Rightarrow> SQLGeneration_args" where
  "only_prompt_id p =
     \<lparr>arg_id = None, arg_prompt_id = p, arg_model = None, arg_evaluate = None,
      arg_sql = None, arg_status = None, arg_completed_at = None, arg_tokens_used = None,
      arg_confidence_score = None, arg_error = None, arg_created_at = None,
      arg_metadata = None\<rparr>"

section \<open>Notions used in the statements\<close>

text \<open>The events that insert into, delete from or update one of the two stores.\<close>

fun writes :: "event \<Rightarrow> bool" where
  "writes (LogInfo _) = False"
| "writes (LogWarning _) = False"
| "writes (VectorQuery _ _ _ _) = False"
| "writes (RepoFindById _) = False"
| "writes RepoFindAll = False"
| "writes (VectorAddRecords _ _) = True"
| "writes (VectorAddRecord _ _ _ _ _) = True"
| "writes (VectorDeleteRecord _ _) = True"
| "writes (VectorDeleteByMetadata _ _) = True"
| "writes (RepoInsert _) = True"
| "writes (RepoDeleteById _) = True"

fun is_warning :: "event \<Rightarrow> bool" where
  "is_warning (LogWarning _) = True"
| "is_warning _ = False"

text \<open>The golden-SQL record a match resolves to, if any, and the sample made of it.\<close>

definition resolve :: "context_store \<Rightarrow> match \<Rightarrow> sample option" where
  "resolve s q =
     map_option (\<lambda>g. \<lparr>sa_prompt_text = gs_prompt_text g, sa_sql = gs_sql g, sa_score = m_score q\<rparr>)
       (find (\<lambda>g. gs_id g = Some (m_id q)) (golden_sqls_db s))"

text \<open>The matches the vector index returns for a prompt in a collection.\<close>

definition closest :: "world \<Rightarrow> context_store \<Rightarrow> string \<Rightarrow> Prompt \<Rightarrow> int \<Rightarrow> match list" where
  "closest w s coll prompt k =
     similar w (vector_store s coll) (pr_text prompt) (pr_db_connection_id prompt) k"

text \<open>The \<open>text\<close> metadata field of a match.\<close>

definition text_field :: "match \<Rightarrow> string option" where
  "text_field m = map_of (m_metadata m) ''text''"

text \<open>The entry \<open>add_context_file\<close> writes for the chunk of ordinal \<open>index\<close>.\<close>

definition chunk_record :: "ContextFile \<Rightarrow> nat \<Rightarrow> string \<Rightarrow> vector_record" where
  "chunk_record context_file index text =
     \<lparr>vr_id = cf_id context_file @ str_nat index,
      vr_text = text,
      vr_db_connection_id = cf_db_connection_id context_file,
      vr_metadata = [(''file_name'', cf_file_name context_file),
                     (''db_connection_id'', cf_db_connection_id context_file),
                     (''text'', text)]\<rparr>"

text \<open>The \<open>add_record\<close> event of a vector entry.\<close>

definition add_event :: "string \<Rightarrow> vector_record \<Rightarrow> event" where
  "add_event coll r =
     VectorAddRecord (vr_text r) (vr_db_connection_id r) coll (vr_metadata r) (vr_id r)"

text \<open>
  Modelled from the spec: the identifier format that bson's \<open>ObjectId\<close> checks is not
  among the sources; the spec gives it as 24-character lowercase hexadecimal.
\<close>

definition object_id_format :: "string \<Rightarrow> bool" where
  "object_id_format v = (length v = 24 \<and> list_all (\<lambda>c. c \<in> set ''0123456789abcdef'') v)"

subsection \<open>A concrete environment and store, for evaluating the definitions\<close>

definition example_world :: world where
  "example_world =
     \<lparr>sql_parses = (\<lambda>q. q = ''SELECT * FROM users''),
      object_id_valid = object_id_format,
      new_object_id = (\<lambda>n. ''golden-'' @ str_nat n),
      now = (\<lambda>n. n),
      similar = (\<lambda>rs text conn k.
         map (\<lambda>r. \<lparr>m_id = vr_id r, m_score = 1, m_metadata = vr_metadata r\<rparr>)
           (take (nat k) (filter (\<lambda>r. vr_db_connection_id r = conn) rs))),
      split_text = (\<lambda>size overlap content.
         filter (\<lambda>c. c \<noteq> []) [take size content, drop (size - overlap) content])\<rparr>"

definition empty_store :: context_store where
  "empty_store =
     \<lparr>golden_sqls_db = [], instructions_db = [], vector_store = (\<lambda>_. []),
      golden_sql_collection = ''golden_sqls'', context_files_collection = ''context_files'',
      issued = 0, ticks = 0, trace = []\<rparr>"

definition users_request :: GoldenSQLRequest where
  "users_request =
     \<lparr>db_connection_id = ''507f1f77bcf86cd799439011'', gr_question = Some ''show all users'',
      gr_sql_query = Some ''SELECT * FROM users'', gr_created_at = 0, gr_metadata = None\<rparr>"

definition malformed_request :: GoldenSQLRequest where
  "malformed_request =
     \<lparr>db_connection_id = ''507f1f77bcf86cd799439011'', gr_question = Some ''show all users'',
      gr_sql_query = Some ''SELEKT * FORM users'', gr_created_at = 0, gr_metadata = None\<rparr>"

definition users_prompt :: Prompt where
  "users_prompt =
     \<lparr>pr_id = None, pr_text = ''list every user'',
      pr_db_connection_id = ''507f1f77bcf86cd799439011'', pr_created_at = 0,
      pr_metadata = None\<rparr>"

definition other_prompt :: Prompt where
  "other_prompt =
     \<lparr>pr_id = None, pr_text = ''list every user'',
      pr_db_connection_id = ''507f1f77bcf86cd799439012'', pr_created_at = 0,
      pr_metadata = None\<rparr>"

definition users_instruction :: Instruction where
  "users_instruction =
     \<lparr>in_id = Some ''i1'', in_instruction = ''users live in table users'',
      in_db_connection_id = ''507f1f77bcf86cd799439011'', in_created_at = 0,
      in_metadata = None\<rparr>"

definition notes_file :: ContextFile where
  "notes_file =
     \<lparr>cf_id = ''f1-'', cf_file_name = ''notes.txt'',
      cf_db_connection_id = ''507f1f77bcf86cd799439011''\<rparr>"

definition other_notes_file :: ContextFile where
  "other_notes_file =
     \<lparr>cf_id = ''f2-'', cf_file_name = ''notes.txt'',
      cf_db_connection_id = ''507f1f77bcf86cd799439012''\<rparr>"

text \<open>A store with one golden SQL, indexed in the vector store, and one instruction.\<close>

definition users_golden_sql :: GoldenSQL where
  "users_golden_sql =
     \<lparr>gs_id = Some ''golden-0'', gs_prompt_text = ''show all users'',
      gs_sql = ''SELECT * FROM users'',
      gs_db_connection_id = ''507f1f77bcf86cd799439011'', gs_created_at = 0,
      gs_metadata = None\<rparr>"

definition users_store :: context_store where
  "users_store =
     \<lparr>golden_sqls_db = [users_golden_sql], instructions_db = [users_instruction],
      vector_store = (\<lambda>_. [])(''golden_sqls'' := [golden_vector_record users_golden_sql]),
      golden_sql_collection = ''golden_sqls'', context_files_collection = ''context_files'',
      issued = 1, ticks = 1, trace = []\<rparr>"

text \<open>
  A vector index holding one chunk of \<open>notes.txt\<close> for each of two connections and one
  chunk of another file.
\<close>

definition readme_file :: ContextFile where
  "readme_file =
     \<lparr>cf_id = ''f3-'', cf_file_name = ''readme.txt'',
      cf_db_connection_id = ''507f1f77bcf86cd799439011''\<rparr>"

definition files_store :: context_store where
  "files_store =
     empty_store\<lparr>vector_store := (\<lambda>_. [])(''context_files'' :=
       [chunk_record notes_file 0 ''hello'', chunk_record other_notes_file 0 ''world'',
        chunk_record readme_file 0 ''read me''])\<rparr>"

text \<open>
  The claim's wording of the result of \<open>retrieve_context_files\<close>: the texts joined with
  a newline between one and the next.
\<close>

fun newline_separated :: "string list \<Rightarrow> string" where
  "newline_separated [] = []"
| "newline_separated [t] = t"
| "newline_separated (t # ts) = t @ [CHR 0x0A] @ newline_separated ts"

text \<open>A vector index whose one context-file entry has no \<open>text\<close> in its metadata.\<close>

definition untexted_store :: context_store where
  "untexted_store =
     empty_store\<lparr>vector_store := (\<lambda>_. [])(''context_files'' :=
       [\<lparr>vr_id = ''x1'', vr_text = ''hello'',
         vr_db_connection_id = ''507f1f77bcf86cd799439011'',
         vr_metadata = [(''file_name'', ''notes.txt'')]\<rparr>])\<rparr>"

text \<open>A world whose splitter differs from the example's at every other chunk size.\<close>

definition other_world :: world where
  "other_world =
     example_world\<lparr>split_text := (\<lambda>size overlap content.
        if size = 1000 \<and> overlap = 50 then split_text example_world size overlap content
        else [content])\<rparr>"

text \<open>The entries \<open>add_context_file\<close> writes for a list of chunks, the first of ordinal \<open>i\<close>.\<close>

definition chunk_records :: "ContextFile \<Rightarrow> nat \<Rightarrow> string list \<Rightarrow> vector_record list" where
  "chunk_records context_file i texts =
     map (\<lambda>(index, text). chunk_record context_file index text) (enumerate i texts)"

text \<open>The identifier and text of every \<open>add_record\<close> call in a trace, in order.\<close>

fun added_chunks :: "event list \<Rightarrow> (string \<times> string) list" where
  "added_chunks [] = []"
| "added_chunks (VectorAddRecord text conn coll md ident # es) = (ident, text) # added_chunks es"
| "added_chunks (_ # es) = added_chunks es"

text \<open>The events a call appended to the trace of the state it started from.\<close>

definition new_events :: "context_store \<Rightarrow> context_store \<Rightarrow> event list" where
  "new_events s s' = drop (length (trace s)) (trace s')"

text \<open>
  The events \<open>remove_golden_sqls\<close> is expected to produce for a list of ids, given the
  golden-SQL records present: for each id in turn the delete on the vector index, then
  the delete on the repository, then a warning if no record had that id by then.
\<close>

definition not_found_warning :: "string \<Rightarrow> event" where
  "not_found_warning i = LogWarning (''Golden record with id '' @ i @ '' not found'')"

fun removal_events :: "string \<Rightarrow> GoldenSQL list \<Rightarrow> string list \<Rightarrow> event list" where
  "removal_events coll db [] = []"
| "removal_events coll db (i # ids) =
     [VectorDeleteRecord coll i, RepoDeleteById i]
     @ (if list_all (\<lambda>g. gs_id g \<noteq> Some i) db then [not_found_warning i] else [])
     @ removal_events coll (filter (\<lambda>g. gs_id g \<noteq> Some i) db) ids"

text \<open>A world whose splitter makes one chunk of every character.\<close>

definition letters_world :: world where
  "letters_world = example_world\<lparr>split_text := (\<lambda>size overlap content. map (\<lambda>c. [c]) content)\<rparr>"

section \<open>Theorems\<close>

subsection \<open>add_golden_sqls\<close>

text \<open>
  Every request makes the first attribute read fail: a non-empty batch leaves
  \<open>add_golden_sqls\<close> with \<open>AttributeError\<close> at its first request, the state untouched,
  and an empty batch succeeds with nothing stored.
\<close>

lemma add_golden_sqls_loop_nonempty:
  "batch \<noteq> [] \<Longrightarrow> add_golden_sqls_loop w batch stored s = (Inl (AttributeError ''sql''), s)"
  by (cases batch) (simp_all add: parse_raises_def attr_sql_def)

lemma add_golden_sqls_nonempty:
  "batch \<noteq> [] \<Longrightarrow> add_golden_sqls w batch s = (Inl (AttributeError ''sql''), s)"
  by (simp add: add_golden_sqls_def add_golden_sqls_loop_nonempty)

lemma add_golden_sqls_empty:
  "add_golden_sqls w [] s = (Inr [], vs_add_records [] (golden_sql_collection s) s)"
  by (simp add: add_golden_sqls_def)

text \<open>
  C1. The request with the SQL \<open>SELEKT * FORM users\<close> is one the validation of
  \<open>GoldenSQLRequest\<close> accepts, and its SQL fails the parse. Submitted alone,
  \<open>add_golden_sqls\<close> does not raise \<open>MalformedGoldenSQLError\<close>: the read of
  \<open>record.sql\<close> raises \<open>AttributeError\<close>, in the \<open>try\<close> and again where the handler
  builds its message. Both stores are as before the call. The well-formed request fares
  the same.
\<close>

theorem add_golden_sqls_attribute_error:
  "new_GoldenSQLRequest example_world 0 ''507f1f77bcf86cd799439011'' (Some ''show all users'')
       (Some ''SELEKT * FORM users'') None None = Inr malformed_request
   \<and> \<not> sql_parses example_world ''SELEKT * FORM users''
   \<and> add_golden_sqls example_world [malformed_request] empty_store
       = (Inl (AttributeError ''sql''), empty_store)
   \<and> add_golden_sqls example_world [users_request] empty_store
       = (Inl (AttributeError ''sql''), empty_store)"
  by (simp add: add_golden_sqls_def parse_raises_def attr_sql_def new_GoldenSQLRequest_def
        build_def check_connection_id_def object_id_validation_def check_min_length_def
        example_world_def object_id_format_def malformed_request_def)

subsection \<open>retrieve_context_for_question\<close>

lemma resolve_emit: "resolve (emit e s) = resolve s"
  by (rule ext) (simp add: resolve_def emit_def)

lemma resolve_trace_update: "resolve (s\<lparr>trace := t\<rparr>) = resolve s"
  by (rule ext) (simp add: resolve_def)

lemma resolve_samples_eq:
  "resolve_samples ms acc s =
     (acc @ List.map_filter (resolve s) ms,
      s\<lparr>trace := trace s @ map (\<lambda>q. RepoFindById (m_id q)) ms\<rparr>)"
proof (induction ms arbitrary: acc s)
  case Nil
  show ?case by (simp add: List.map_filter_simps)
next
  case (Cons q qs)
  show ?case
  proof (cases "find (\<lambda>g. gs_id g = Some (m_id q)) (golden_sqls_db s)")
    case None
    then show ?thesis
      by (simp add: Cons.IH repo_find_by_id_def emit_def List.map_filter_simps
            resolve_trace_update) (simp add: resolve_def)
  next
    case (Some g)
    then show ?thesis
      by (simp add: Cons.IH repo_find_by_id_def emit_def List.map_filter_simps
            resolve_trace_update) (simp add: resolve_def)
  qed
qed

lemma select_instructions_eq:
  "select_instructions prompt is acc =
     acc @ map (\<lambda>i. [(''instruction'', in_instruction i)])
             (filter (\<lambda>i. in_db_connection_id i = pr_db_connection_id prompt) is)"
  by (induction "is" arbitrary: acc) simp_all

lemma retrieve_context_for_question_eq:
  "retrieve_context_for_question w prompt k s =
     (let ms = closest w s (golden_sql_collection s) prompt k;
          samples = List.map_filter (resolve s) ms;
          instructions = map (\<lambda>i. [(''instruction'', in_instruction i)])
             (filter (\<lambda>i. in_db_connection_id i = pr_db_connection_id prompt) (instructions_db s))
      in ((if samples = [] then None else Some samples,
           if instructions = [] then None else Some instructions),
          s\<lparr>trace := trace s @
                [LogInfo (''Getting context for '' @ pr_text prompt),
                 VectorQuery (pr_text prompt) (pr_db_connection_id prompt)
                   (golden_sql_collection s) k]
                @ map (\<lambda>q. RepoFindById (m_id q)) ms @ [RepoFindAll]\<rparr>))"
  by (simp add: retrieve_context_for_question_def vs_query_def emit_def repo_find_all_def
        resolve_samples_eq select_instructions_eq closest_def Let_def resolve_trace_update)

lemma map_filter_Nil_iff: "List.map_filter f xs = [] \<longleftrightarrow> (\<forall>x\<in>set xs. f x = None)"
  by (induction xs) (auto simp: List.map_filter_simps split: option.splits)

text \<open>
  C3. Neither position of the result of \<open>retrieve_context_for_question\<close> is ever an
  empty list. The samples position is \<open>None\<close> exactly when no match of the similarity
  query resolves to a golden-SQL record of the repository; the instructions position is
  \<open>None\<close> exactly when no stored instruction has the prompt's \<open>db_connection_id\<close>.
  Otherwise the instructions are those of all stored instructions whose connection id
  equals the prompt's, in stored order, and the samples are the resolved matches, in
  rank order.
\<close>

theorem retrieve_context_for_question_none_not_empty:
  "fst (fst (retrieve_context_for_question w prompt k s)) \<noteq> Some []
   \<and> snd (fst (retrieve_context_for_question w prompt k s)) \<noteq> Some []
   \<and> (fst (fst (retrieve_context_for_question w prompt k s)) = None \<longleftrightarrow>
        (\<forall>q\<in>set (closest w s (golden_sql_collection s) prompt k). resolve s q = None))
   \<and> (snd (fst (retrieve_context_for_question w prompt k s)) = None \<longleftrightarrow>
        (\<forall>i\<in>set (instructions_db s). in_db_connection_id i \<noteq> pr_db_connection_id prompt))
   \<and> (\<forall>is. snd (fst (retrieve_context_for_question w prompt k s)) = Some is \<longrightarrow>
        is = map (\<lambda>i. [(''instruction'', in_instruction i)])
               (filter (\<lambda>i. in_db_connection_id i = pr_db_connection_id prompt)
                  (instructions_db s)))
   \<and> (\<forall>ss. fst (fst (retrieve_context_for_question w prompt k s)) = Some ss \<longrightarrow>
        ss = List.map_filter (resolve s) (closest w s (golden_sql_collection s) prompt k))"
  by (simp add: retrieve_context_for_question_eq Let_def map_filter_Nil_iff filter_empty_conv)

text \<open>
  C8. \<open>retrieve_context_for_question\<close> is read-only: the golden-SQL records, the
  instructions and every collection of the vector index are the same after the call as
  before it, the state differs only by the events appended to the trace, and none of
  these events is an insert, a delete or an update: they are one log line, one query,
  one \<open>find_by_id\<close> per match and one \<open>find_all\<close>.
\<close>

theorem retrieve_context_for_question_read_only:
  "golden_sqls_db (snd (retrieve_context_for_question w prompt k s)) = golden_sqls_db s
   \<and> instructions_db (snd (retrieve_context_for_question w prompt k s)) = instructions_db s
   \<and> vector_store (snd (retrieve_context_for_question w prompt k s)) = vector_store s
   \<and> snd (retrieve_context_for_question w prompt k s) =
       s\<lparr>trace := trace s @
            [LogInfo (''Getting context for '' @ pr_text prompt),
             VectorQuery (pr_text prompt) (pr_db_connection_id prompt) (golden_sql_collection s) k]
            @ map (\<lambda>q. RepoFindById (m_id q)) (closest w s (golden_sql_collection s) prompt k)
            @ [RepoFindAll]\<rparr>
   \<and> (\<forall>e\<in>set (drop (length (trace s))
                  (trace (snd (retrieve_context_for_question w prompt k s)))). \<not> writes e)"
  by (auto simp: retrieve_context_for_question_eq Let_def)

theorem retrieve_context_for_question_none_not_empty_witness:
  "fst (retrieve_context_for_question example_world other_prompt 3 users_store) = (None, None)
   \<and> fst (retrieve_context_for_question example_world users_prompt 3 users_store) =
      (Some [\<lparr>sa_prompt_text = ''show all users'', sa_sql = ''SELECT * FROM users'', sa_score = 1\<rparr>],
       Some [[(''instruction'', ''users live in table users'')]])"
proof -
  have a: "\<forall>q\<in>set (closest example_world users_store (golden_sql_collection users_store)
              other_prompt 3). resolve users_store q = None"
    by code_simp
  have b: "\<forall>i\<in>set (instructions_db users_store).
              in_db_connection_id i \<noteq> pr_db_connection_id other_prompt"
    by code_simp
  have c: "fst (retrieve_context_for_question example_world users_prompt 3 users_store) =
      (Some [\<lparr>sa_prompt_text = ''show all users'', sa_sql = ''SELECT * FROM users'', sa_score = 1\<rparr>],
       Some [[(''instruction'', ''users live in table users'')]])"
    by code_simp
  from retrieve_context_for_question_none_not_empty
         [of example_world other_prompt 3 users_store] a b c
  show ?thesis by (simp add: prod_eq_iff)
qed

theorem retrieve_context_for_question_read_only_witness:
  "drop (length (trace users_store))
     (trace (snd (retrieve_context_for_question example_world users_prompt 3 users_store))) =
     [LogInfo ''Getting context for list every user'',
      VectorQuery ''list every user'' ''507f1f77bcf86cd799439011'' ''golden_sqls'' 3,
      RepoFindById ''golden-0'', RepoFindAll]
   \<and> list_all (\<lambda>e. \<not> writes e) (drop (length (trace users_store))
          (trace (snd (retrieve_context_for_question example_world users_prompt 3 users_store))))
   \<and> vector_store (snd (retrieve_context_for_question example_world users_prompt 3 users_store))
       = vector_store users_store
   \<and> golden_sqls_db (snd (retrieve_context_for_question example_world users_prompt 3 users_store))
       = golden_sqls_db users_store"
proof -
  have a: "drop (length (trace users_store))
     (trace (snd (retrieve_context_for_question example_world users_prompt 3 users_store))) =
     [LogInfo ''Getting context for list every user'',
      VectorQuery ''list every user'' ''507f1f77bcf86cd799439011'' ''golden_sqls'' 3,
      RepoFindById ''golden-0'', RepoFindAll]"
    by code_simp
  from retrieve_context_for_question_read_only [of example_world users_prompt 3 users_store] a
  show ?thesis unfolding list_all_iff by blast
qed

subsection \<open>retrieve_context_files\<close>

lemma join_texts_eq:
  "map text_field ms = map Some ts \<Longrightarrow>
     join_texts ms acc = Inr (acc @ concat (map (\<lambda>t. t @ [CHR 0x0A]) ts))"
proof (induction ms arbitrary: ts acc)
  case Nil
  then show ?case by simp
next
  case (Cons m ms)
  then obtain t ts' where ts: "ts = t # ts'" and t: "text_field m = Some t"
    and rest: "map text_field ms = map Some ts'"
    by (cases ts) auto
  from Cons.IH [OF rest] t show ?case
    by (simp add: ts text_field_def)
qed

lemma join_texts_missing:
  "\<exists>m\<in>set ms. text_field m = None \<Longrightarrow> join_texts ms acc = Inl (KeyError ''text'')"
  by (induction ms arbitrary: acc) (auto simp: text_field_def split: option.splits)

text \<open>
  C4, as the code has it. When the matches of the similarity query carry the \<open>text\<close>
  metadata fields \<open>ts\<close>, in rank order, \<open>retrieve_context_files\<close> returns their
  concatenation in that order with a newline after each text, the last one too; when a
  match has no \<open>text\<close> field the call raises \<open>KeyError\<close>; when the query yields no
  match it returns the empty string, not a null marker.
\<close>

theorem retrieve_context_files_newline_terminated:
  "(map text_field (closest w s (context_files_collection s) prompt k) = map Some ts \<longrightarrow>
      fst (retrieve_context_files w prompt k s) = Inr (concat (map (\<lambda>t. t @ [CHR 0x0A]) ts)))
   \<and> ((\<exists>m\<in>set (closest w s (context_files_collection s) prompt k). text_field m = None) \<longrightarrow>
      fst (retrieve_context_files w prompt k s) = Inl (KeyError ''text''))
   \<and> (closest w s (context_files_collection s) prompt k = [] \<longrightarrow>
      fst (retrieve_context_files w prompt k s) = Inr [])"
  by (simp add: retrieve_context_files_def vs_query_def closest_def join_texts_eq
        join_texts_missing)

theorem retrieve_context_files_newline_terminated_witness:
  "fst (retrieve_context_files example_world users_prompt 3 files_store)
     = Inr (''hello'' @ [CHR 0x0A] @ ''read me'' @ [CHR 0x0A])
   \<and> fst (retrieve_context_files example_world users_prompt 3 untexted_store)
     = Inl (KeyError ''text'')
   \<and> fst (retrieve_context_files example_world users_prompt 3 empty_store) = Inr []"
proof -
  have a: "map text_field (closest example_world files_store
             (context_files_collection files_store) users_prompt 3)
           = map Some [''hello'', ''read me'']"
    by code_simp
  have b: "closest example_world empty_store (context_files_collection empty_store)
             users_prompt 3 = []"
    by code_simp
  have m: "\<exists>m\<in>set (closest example_world untexted_store
             (context_files_collection untexted_store) users_prompt 3). text_field m = None"
    by code_simp
  from retrieve_context_files_newline_terminated [of example_world files_store users_prompt 3
         "[''hello'', ''read me'']"] a
  have c: "fst (retrieve_context_files example_world users_prompt 3 files_store)
     = Inr (''hello'' @ [CHR 0x0A] @ ''read me'' @ [CHR 0x0A])" by simp
  from retrieve_context_files_newline_terminated [of example_world empty_store users_prompt 3
         "[]"] b
  have d: "fst (retrieve_context_files example_world users_prompt 3 empty_store) = Inr []"
    by simp
  from retrieve_context_files_newline_terminated [of example_world untexted_store users_prompt 3
         "[]"] m
  have e: "fst (retrieve_context_files example_world users_prompt 3 untexted_store)
     = Inl (KeyError ''text'')" by blast
  from c d e show ?thesis by simp
qed

text \<open>
  C4 as stated fails: for the two matches \<open>hello\<close> and \<open>read me\<close> the call returns the
  texts with a newline after each, which is not the two texts separated by a newline;
  and for a match without a \<open>text\<close> field it returns no string at all.
\<close>

theorem retrieve_context_files_trailing_newline:
  "fst (retrieve_context_files example_world users_prompt 3 files_store)
     = Inr (''hello'' @ [CHR 0x0A] @ ''read me'' @ [CHR 0x0A])
   \<and> newline_separated [''hello'', ''read me''] = ''hello'' @ [CHR 0x0A] @ ''read me''
   \<and> fst (retrieve_context_files example_world users_prompt 3 files_store)
     \<noteq> Inr (newline_separated [''hello'', ''read me''])
   \<and> fst (retrieve_context_files example_world users_prompt 3 untexted_store)
     = Inl (KeyError ''text'')"
  by code_simp

subsection \<open>delete_context_file\<close>

lemma metadata_matches_file_name:
  "metadata_matches [(''file_name'', n)] r \<longleftrightarrow> map_of (vr_metadata r) ''file_name'' = Some n"
  by (simp add: metadata_matches_def)

text \<open>
  C9. \<open>delete_context_file\<close> returns true and removes from the context-file collection
  exactly the chunks whose metadata \<open>file_name\<close> is the file's name; every other
  collection and the repository are untouched. The connection id plays no part: every
  chunk of that name is removed whatever its connection, and the call does the same for
  any \<open>db_connection_id\<close> (and \<open>id\<close>) of the file passed.
\<close>

theorem delete_context_file_by_file_name:
  "fst (delete_context_file context_file s) = True
   \<and> vector_store (snd (delete_context_file context_file s)) =
       (vector_store s)(context_files_collection s :=
          filter (\<lambda>r. map_of (vr_metadata r) ''file_name'' \<noteq> Some (cf_file_name context_file))
            (vector_store s (context_files_collection s)))
   \<and> golden_sqls_db (snd (delete_context_file context_file s)) = golden_sqls_db s
   \<and> (\<forall>r\<in>set (vector_store s (context_files_collection s)).
        map_of (vr_metadata r) ''file_name'' = Some (cf_file_name context_file) \<longrightarrow>
        r \<notin> set (vector_store (snd (delete_context_file context_file s))
                    (context_files_collection s)))
   \<and> delete_context_file (context_file\<lparr>cf_db_connection_id := c, cf_id := i\<rparr>) s
       = delete_context_file context_file s"
  by (simp add: delete_context_file_def vs_delete_record_by_metadata_def emit_def
        metadata_matches_file_name)

theorem delete_context_file_by_file_name_witness:
  "vr_db_connection_id (chunk_record other_notes_file 0 ''world'')
      \<noteq> cf_db_connection_id notes_file
   \<and> chunk_record other_notes_file 0 ''world''
        \<in> set (vector_store files_store (context_files_collection files_store))
   \<and> chunk_record other_notes_file 0 ''world''
        \<notin> set (vector_store (snd (delete_context_file notes_file files_store))
                  (context_files_collection files_store))
   \<and> vector_store (snd (delete_context_file notes_file files_store)) ''context_files''
        = [chunk_record readme_file 0 ''read me'']"
proof -
  have a: "chunk_record other_notes_file 0 ''world''
        \<in> set (vector_store files_store (context_files_collection files_store))"
    by (simp add: files_store_def empty_store_def)
  have b: "map_of (vr_metadata (chunk_record other_notes_file 0 ''world'')) ''file_name''
        = Some (cf_file_name notes_file)"
    by (simp add: chunk_record_def other_notes_file_def notes_file_def)
  have c: "vr_db_connection_id (chunk_record other_notes_file 0 ''world'')
      \<noteq> cf_db_connection_id notes_file"
    by (simp add: chunk_record_def other_notes_file_def notes_file_def)
  have d: "vector_store (snd (delete_context_file notes_file files_store)) ''context_files''
        = [chunk_record readme_file 0 ''read me'']"
    by code_simp
  from delete_context_file_by_file_name [of notes_file files_store] a b
  have "chunk_record other_notes_file 0 ''world''
        \<notin> set (vector_store (snd (delete_context_file notes_file files_store))
                  (context_files_collection files_store))"
    by blast
  with a c d show ?thesis by blast
qed

subsection \<open>add_context_file\<close>

lemma add_chunks_eq:
  "add_chunks context_file i texts s =
     s\<lparr>vector_store := (vector_store s)(context_files_collection s :=
          fold upsert (chunk_records context_file i texts)
            (vector_store s (context_files_collection s))),
       trace := trace s @ map (add_event (context_files_collection s))
                            (chunk_records context_file i texts)\<rparr>"
proof (induction texts arbitrary: i s)
  case Nil
  show ?case by (simp add: chunk_records_def)
next
  case (Cons t ts)
  show ?case
    unfolding add_chunks.simps Cons.IH
    by (rule context_store.equality)
       (simp_all add: chunk_records_def vs_add_record_def emit_def chunk_record_def
          add_event_def fun_eq_iff)
qed

lemma added_chunks_append: "added_chunks (es @ fs) = added_chunks es @ added_chunks fs"
  by (induction es rule: added_chunks.induct) simp_all

lemma added_chunks_add_events:
  "added_chunks (map (add_event coll) rs) = map (\<lambda>r. (vr_id r, vr_text r)) rs"
  by (induction rs) (simp_all add: add_event_def)

lemma chunk_records_id_text:
  "map (\<lambda>r. (vr_id r, vr_text r)) (chunk_records context_file i texts) =
     map (\<lambda>(index, text). (cf_id context_file @ str_nat index, text)) (enumerate i texts)"
  by (simp add: chunk_records_def chunk_record_def case_prod_unfold)

lemma add_context_file_eq:
  "add_context_file w context_file content s =
     (True,
      s\<lparr>vector_store := (vector_store s)(context_files_collection s :=
           fold upsert (chunk_records context_file 0 (split_text w 1000 50 content))
             (vector_store s (context_files_collection s))),
        trace := trace s @
           [LogInfo (''Adding context file '' @ cf_file_name context_file),
            LogInfo (''Number of chunks: '' @ str_nat (length (split_text w 1000 50 content)))]
           @ map (add_event (context_files_collection s))
               (chunk_records context_file 0 (split_text w 1000 50 content))\<rparr>)"
  by (simp add: add_context_file_def add_chunks_eq emit_def Let_def)

lemma add_context_file_added_chunks:
  "added_chunks (new_events s (snd (add_context_file w context_file content s))) =
     map (\<lambda>(index, text). (cf_id context_file @ str_nat index, text))
       (enumerate 0 (split_text w 1000 50 content))"
  by (simp add: add_context_file_eq new_events_def added_chunks_append added_chunks_add_events
        chunk_records_id_text)

text \<open>
  C10. The chunks \<open>add_context_file\<close> writes are those the splitter gives for chunk
  size 1000 and overlap 50, and the caller has no say in these two numbers: two worlds
  whose splitters agree at \<open>(1000, 50)\<close> on the content give the same result, however
  they differ at other sizes.
\<close>

theorem add_context_file_fixed_chunking:
  "map snd (added_chunks (new_events s (snd (add_context_file w context_file content s))))
     = split_text w 1000 50 content
   \<and> (split_text w 1000 50 content = split_text w' 1000 50 content \<longrightarrow>
        add_context_file w context_file content s = add_context_file w' context_file content s)"
proof -
  have "map snd (map (\<lambda>(index, text). (cf_id context_file @ str_nat index, text))
          (enumerate 0 (split_text w 1000 50 content))) = split_text w 1000 50 content"
    by (simp add: case_prod_unfold comp_def)
  then have "map snd (added_chunks (new_events s (snd (add_context_file w context_file content s))))
     = split_text w 1000 50 content"
    by (simp only: add_context_file_added_chunks)
  moreover have "split_text w 1000 50 content = split_text w' 1000 50 content \<longrightarrow>
        add_context_file w context_file content s = add_context_file w' context_file content s"
    by (simp add: add_context_file_def)
  ultimately show ?thesis by blast
qed

theorem add_context_file_fixed_chunking_witness:
  "split_text other_world 3 0 ''hello'' \<noteq> split_text example_world 3 0 ''hello''
   \<and> add_context_file example_world notes_file ''hello'' empty_store
       = add_context_file other_world notes_file ''hello'' empty_store"
proof -
  have a: "split_text example_world 1000 50 ''hello'' = split_text other_world 1000 50 ''hello''"
    by (simp add: other_world_def)
  have b: "split_text other_world 3 0 ''hello'' \<noteq> split_text example_world 3 0 ''hello''"
    by code_simp
  from add_context_file_fixed_chunking
         [of empty_store example_world notes_file "''hello''" other_world] a b
  show ?thesis by blast
qed

text \<open>Decimal digits determine the number.\<close>

lemma digit_value: "d < 10 \<Longrightarrow> of_char (digit d) - 48 = (d::nat)"
  unfolding digit_def of_char_of by simp

lemma foldl_snoc_digit:
  "foldl (\<lambda>a c. 10 * a + (of_char c - 48)) 0 (xs @ [c]) =
     10 * foldl (\<lambda>a c. 10 * a + (of_char c - 48)) 0 xs + (of_char c - (48::nat))"
  by simp

lemma str_nat_value: "foldl (\<lambda>a c. 10 * a + (of_char c - 48)) 0 (str_nat n) = (n::nat)"
proof (induction n rule: str_nat.induct)
  case (1 n)
  show ?case
  proof (cases "n < 10")
    case True
    then have "str_nat n = [digit n]" by (subst str_nat.simps) simp
    with True show ?thesis by (simp add: digit_value)
  next
    case False
    then have e: "str_nat n = str_nat (n div 10) @ [digit (n mod 10)]"
      by (subst str_nat.simps) simp
    have "n mod 10 < 10" by simp
    then have d: "of_char (digit (n mod 10)) - 48 = n mod 10" by (rule digit_value)
    have "foldl (\<lambda>a c. 10 * a + (of_char c - 48)) 0 (str_nat n) =
            10 * foldl (\<lambda>a c. 10 * a + (of_char c - 48)) 0 (str_nat (n div 10))
              + (of_char (digit (n mod 10)) - (48::nat))"
      unfolding e by (rule foldl_snoc_digit)
    also have "\<dots> = 10 * (n div 10) + n mod 10"
      by (simp only: 1 [OF False] d)
    also have "\<dots> = n" by simp
    finally show ?thesis .
  qed
qed

lemma str_nat_inj: "str_nat m = str_nat n \<Longrightarrow> m = n"
  by (metis str_nat_value)

lemma chunk_records_ids:
  "map vr_id (chunk_records context_file i texts) =
     map (\<lambda>index. cf_id context_file @ str_nat index) [i..<i + length texts]"
  by (simp add: chunk_records_def chunk_record_def case_prod_unfold comp_def
        flip: map_fst_enumerate)

lemma chunk_records_distinct: "distinct (map vr_id (chunk_records context_file i texts))"
  unfolding chunk_records_ids
  by (auto simp: distinct_map inj_on_def dest: str_nat_inj)


text \<open>Adding the same entries a second time changes nothing.\<close>

lemma upsert_present:
  "find (\<lambda>x. vr_id x = vr_id r) xs = Some r \<Longrightarrow> upsert r xs = xs"
  by (induction xs) (auto split: if_splits)

lemma find_upsert_same: "find (\<lambda>x. vr_id x = vr_id r) (upsert r xs) = Some r"
  by (induction xs) auto

lemma find_upsert_other:
  "vr_id r \<noteq> i \<Longrightarrow> find (\<lambda>x. vr_id x = i) (upsert r xs) = find (\<lambda>x. vr_id x = i) xs"
  by (induction xs) auto

lemma find_fold_upsert_other:
  "\<forall>r\<in>set rs. vr_id r \<noteq> i \<Longrightarrow>
     find (\<lambda>x. vr_id x = i) (fold upsert rs xs) = find (\<lambda>x. vr_id x = i) xs"
  by (induction rs arbitrary: xs) (simp_all add: find_upsert_other)

lemma find_fold_upsert:
  "distinct (map vr_id rs) \<Longrightarrow> r \<in> set rs \<Longrightarrow>
     find (\<lambda>x. vr_id x = vr_id r) (fold upsert rs xs) = Some r"
proof (induction rs arbitrary: xs)
  case Nil
  then show ?case by simp
next
  case (Cons a rs)
  show ?case
  proof (cases "r = a")
    case True
    from Cons.prems(1) have "vr_id a \<notin> vr_id ` set rs" by simp
    then have "\<forall>x\<in>set rs. vr_id x \<noteq> vr_id a" by (metis imageI)
    then show ?thesis
      by (simp add: True find_fold_upsert_other find_upsert_same)
  next
    case False
    with Cons.prems have "r \<in> set rs" and "distinct (map vr_id rs)" by auto
    then show ?thesis by (simp add: Cons.IH)
  qed
qed

lemma fold_upsert_present:
  "\<forall>r\<in>set rs. find (\<lambda>x. vr_id x = vr_id r) xs = Some r \<Longrightarrow> fold upsert rs xs = xs"
  by (induction rs) (simp_all add: upsert_present)

lemma fold_upsert_twice:
  "distinct (map vr_id rs) \<Longrightarrow> fold upsert rs (fold upsert rs xs) = fold upsert rs xs"
  by (rule fold_upsert_present) (simp add: find_fold_upsert)

text \<open>
  C7. The chunk of ordinal \<open>index\<close> is written under the identifier
  \<open>context_file.id + str(index)\<close>, with its text, in chunk order. The sequence of
  identifiers and texts depends on the file and the content only, not on the store the
  call starts from, so a second ingestion writes the identical sequence; the identifiers
  of one ingestion are pairwise distinct; and since an entry added under an identifier
  already present overwrites it, ingesting the same content a second time leaves the
  vector index as the first ingestion left it.
\<close>

theorem add_context_file_chunk_ids:
  "added_chunks (new_events s (snd (add_context_file w context_file content s))) =
     map (\<lambda>(index, text). (cf_id context_file @ str_nat index, text))
       (enumerate 0 (split_text w 1000 50 content))
   \<and> added_chunks (new_events s' (snd (add_context_file w context_file content s'))) =
       added_chunks (new_events s (snd (add_context_file w context_file content s)))
   \<and> distinct (map fst (added_chunks
        (new_events s (snd (add_context_file w context_file content s)))))
   \<and> vector_store (snd (add_context_file w context_file content
                         (snd (add_context_file w context_file content s)))) =
       vector_store (snd (add_context_file w context_file content s))"
proof -
  let ?rs = "chunk_records context_file 0 (split_text w 1000 50 content)"
  have a: "added_chunks (new_events s (snd (add_context_file w context_file content s))) =
     map (\<lambda>(index, text). (cf_id context_file @ str_nat index, text))
       (enumerate 0 (split_text w 1000 50 content))" for s
    by (rule add_context_file_added_chunks)
  have "map fst (map (\<lambda>r. (vr_id r, vr_text r)) ?rs) = map vr_id ?rs"
    by (simp add: comp_def)
  with chunk_records_distinct [of context_file 0 "split_text w 1000 50 content"]
  have b: "distinct (map fst (map (\<lambda>(index, text). (cf_id context_file @ str_nat index, text))
       (enumerate 0 (split_text w 1000 50 content))))"
    by (simp only: chunk_records_id_text [symmetric])
  have c: "vector_store (snd (add_context_file w context_file content
                         (snd (add_context_file w context_file content s)))) =
       vector_store (snd (add_context_file w context_file content s))"
    by (simp add: add_context_file_eq fold_upsert_twice chunk_records_distinct)
  from a [of s] a [of s'] b c show ?thesis by simp
qed

theorem add_context_file_chunk_ids_witness:
  "added_chunks (new_events empty_store
      (snd (add_context_file letters_world notes_file ''abc'' empty_store))) =
     [(''f1-0'', ''a''), (''f1-1'', ''b''), (''f1-2'', ''c'')]
   \<and> vector_store (snd (add_context_file letters_world notes_file ''abc''
        (snd (add_context_file letters_world notes_file ''abc'' empty_store))))
        ''context_files''
      = [chunk_record notes_file 0 ''a'', chunk_record notes_file 1 ''b'',
         chunk_record notes_file 2 ''c'']"
proof -
  have a: "vector_store (snd (add_context_file letters_world notes_file ''abc''
        empty_store)) ''context_files''
      = [chunk_record notes_file 0 ''a'', chunk_record notes_file 1 ''b'',
         chunk_record notes_file 2 ''c'']"
    by code_simp
  have b: "map (\<lambda>(index, text). (cf_id notes_file @ str_nat index, text))
       (enumerate 0 (split_text letters_world 1000 50 ''abc''))
       = [(''f1-0'', ''a''), (''f1-1'', ''b''), (''f1-2'', ''c'')]"
    by code_simp
  from add_context_file_chunk_ids [of empty_store letters_world notes_file "''abc''"
         empty_store] a b
  show ?thesis by simp
qed

subsection \<open>remove_golden_sqls\<close>

lemma remove_golden_sqls_eq:
  "remove_golden_sqls ids s =
     (True,
      s\<lparr>golden_sqls_db := filter (\<lambda>g. \<forall>i\<in>set ids. gs_id g \<noteq> Some i) (golden_sqls_db s),
        vector_store := (vector_store s)(golden_sql_collection s :=
          filter (\<lambda>r. vr_id r \<notin> set ids) (vector_store s (golden_sql_collection s))),
        trace := trace s @ removal_events (golden_sql_collection s) (golden_sqls_db s) ids\<rparr>)"
proof (induction ids arbitrary: s)
  case Nil
  show ?case by simp
next
  case (Cons i ids)
  have count: "(length (filter (\<lambda>g. gs_id g = Some i) (golden_sqls_db s)) = 0)
                 = list_all (\<lambda>g. gs_id g \<noteq> Some i) (golden_sqls_db s)"
    by (simp add: list_all_iff filter_empty_conv)
  show ?case
  proof (cases "list_all (\<lambda>g. gs_id g \<noteq> Some i) (golden_sqls_db s)")
    case True
    show ?thesis
      unfolding remove_golden_sqls.simps Let_def repo_delete_by_id_def vs_delete_record_def
        emit_def split_conv count Cons.IH
      using True unfolding list_all_iff
      by (intro conjI prod_eqI context_store.equality)
         (simp_all add: fun_eq_iff not_found_warning_def filter_empty_conv list_all_iff
            cong: filter_cong)
  next
    case False
    show ?thesis
      unfolding remove_golden_sqls.simps Let_def repo_delete_by_id_def vs_delete_record_def
        emit_def split_conv count Cons.IH
      using False unfolding list_all_iff
      by (intro conjI prod_eqI context_store.equality)
         (simp_all add: fun_eq_iff not_found_warning_def filter_empty_conv list_all_iff
            cong: filter_cong)
  qed
qed


lemma removal_events_calls:
  "filter (\<lambda>e. \<not> is_warning e) (removal_events coll db ids) =
     concat (map (\<lambda>i. [VectorDeleteRecord coll i, RepoDeleteById i]) ids)"
  by (induction ids arbitrary: db) (simp_all add: not_found_warning_def)

lemma removal_events_absent:
  "\<forall>i\<in>set ids. \<forall>g\<in>set db. gs_id g \<noteq> Some i \<Longrightarrow>
     removal_events coll db ids =
       concat (map (\<lambda>i. [VectorDeleteRecord coll i, RepoDeleteById i, not_found_warning i]) ids)"
  by (induction ids arbitrary: db) (simp_all add: list_all_iff)

lemma new_events_appended: "trace s' = trace s @ es \<Longrightarrow> new_events s s' = es"
  by (simp add: new_events_def)

text \<open>
  C5. \<open>remove_golden_sqls\<close> returns true for every list of ids. For each id in turn it
  calls the delete of the vector index and then the delete of the repository, and logs a
  warning (nothing more) exactly when the repository held no record of that id by then;
  it goes on to the remaining ids. Afterwards no record and no golden-SQL vector entry
  with one of the ids is left. A second call with the same list returns true again,
  leaves both stores as they are, and logs one warning per id.
\<close>

theorem remove_golden_sqls_best_effort:
  "fst (remove_golden_sqls ids s) = True
   \<and> new_events s (snd (remove_golden_sqls ids s)) =
       removal_events (golden_sql_collection s) (golden_sqls_db s) ids
   \<and> filter (\<lambda>e. \<not> is_warning e) (new_events s (snd (remove_golden_sqls ids s))) =
       concat (map (\<lambda>i. [VectorDeleteRecord (golden_sql_collection s) i, RepoDeleteById i]) ids)
   \<and> golden_sqls_db (snd (remove_golden_sqls ids s)) =
       filter (\<lambda>g. \<forall>i\<in>set ids. gs_id g \<noteq> Some i) (golden_sqls_db s)
   \<and> vector_store (snd (remove_golden_sqls ids s)) =
       (vector_store s)(golden_sql_collection s :=
          filter (\<lambda>r. vr_id r \<notin> set ids) (vector_store s (golden_sql_collection s)))
   \<and> fst (remove_golden_sqls ids (snd (remove_golden_sqls ids s))) = True
   \<and> golden_sqls_db (snd (remove_golden_sqls ids (snd (remove_golden_sqls ids s)))) =
       golden_sqls_db (snd (remove_golden_sqls ids s))
   \<and> vector_store (snd (remove_golden_sqls ids (snd (remove_golden_sqls ids s)))) =
       vector_store (snd (remove_golden_sqls ids s))
   \<and> new_events (snd (remove_golden_sqls ids s))
         (snd (remove_golden_sqls ids (snd (remove_golden_sqls ids s)))) =
       concat (map (\<lambda>i. [VectorDeleteRecord (golden_sql_collection s) i, RepoDeleteById i,
                            not_found_warning i]) ids)"
proof -
  let ?s1 = "snd (remove_golden_sqls ids s)"
  let ?s2 = "snd (remove_golden_sqls ids ?s1)"
  let ?coll = "golden_sql_collection s"
  have db1: "golden_sqls_db ?s1 = filter (\<lambda>g. \<forall>i\<in>set ids. gs_id g \<noteq> Some i) (golden_sqls_db s)"
    and vs1: "vector_store ?s1 = (vector_store s)(?coll :=
          filter (\<lambda>r. vr_id r \<notin> set ids) (vector_store s ?coll))"
    and coll1: "golden_sql_collection ?s1 = ?coll"
    and tr1: "trace ?s1 = trace s @ removal_events ?coll (golden_sqls_db s) ids"
    by (simp_all add: remove_golden_sqls_eq)
  have ev1: "new_events s ?s1 = removal_events ?coll (golden_sqls_db s) ids"
    using tr1 by (rule new_events_appended)
  have absent: "\<forall>i\<in>set ids. \<forall>g\<in>set (golden_sqls_db ?s1). gs_id g \<noteq> Some i"
    by (simp add: db1)
  have db2: "golden_sqls_db ?s2 = golden_sqls_db ?s1"
    by (subst remove_golden_sqls_eq) (simp add: db1 cong: filter_cong)
  have vs2: "vector_store ?s2 = vector_store ?s1"
    by (subst remove_golden_sqls_eq) (simp add: vs1 coll1 cong: filter_cong)
  have "trace ?s2 = trace ?s1 @ removal_events ?coll (golden_sqls_db ?s1) ids"
    by (subst remove_golden_sqls_eq) (simp add: coll1)
  then have "new_events ?s1 ?s2 = removal_events ?coll (golden_sqls_db ?s1) ids"
    by (rule new_events_appended)
  then have ev2: "new_events ?s1 ?s2 =
       concat (map (\<lambda>i. [VectorDeleteRecord ?coll i, RepoDeleteById i, not_found_warning i]) ids)"
    by (simp only: removal_events_absent [OF absent])
  have r1: "fst (remove_golden_sqls ids s) = True" and r2: "fst (remove_golden_sqls ids ?s1) = True"
    by (simp_all add: remove_golden_sqls_eq)
  have calls: "filter (\<lambda>e. \<not> is_warning e) (new_events s ?s1) =
       concat (map (\<lambda>i. [VectorDeleteRecord ?coll i, RepoDeleteById i]) ids)"
    by (simp only: ev1 removal_events_calls)
  from r1 ev1 calls db1 vs1 r2 db2 vs2 ev2 show ?thesis by blast
qed

theorem remove_golden_sqls_best_effort_witness:
  "new_events users_store (snd (remove_golden_sqls [''golden-0'', ''zz''] users_store)) =
     [VectorDeleteRecord ''golden_sqls'' ''golden-0'', RepoDeleteById ''golden-0'',
      VectorDeleteRecord ''golden_sqls'' ''zz'', RepoDeleteById ''zz'',
      LogWarning ''Golden record with id zz not found'']
   \<and> golden_sqls_db users_store \<noteq> []
   \<and> golden_sqls_db (snd (remove_golden_sqls [''golden-0'', ''zz''] users_store)) = []
   \<and> fst (remove_golden_sqls [''golden-0'', ''zz'']
            (snd (remove_golden_sqls [''golden-0'', ''zz''] users_store))) = True
   \<and> new_events (snd (remove_golden_sqls [''golden-0'', ''zz''] users_store))
        (snd (remove_golden_sqls [''golden-0'', ''zz'']
               (snd (remove_golden_sqls [''golden-0'', ''zz''] users_store)))) =
     [VectorDeleteRecord ''golden_sqls'' ''golden-0'', RepoDeleteById ''golden-0'',
      LogWarning ''Golden record with id golden-0 not found'',
      VectorDeleteRecord ''golden_sqls'' ''zz'', RepoDeleteById ''zz'',
      LogWarning ''Golden record with id zz not found'']"
proof -
  have a: "removal_events (golden_sql_collection users_store) (golden_sqls_db users_store)
             [''golden-0'', ''zz''] =
     [VectorDeleteRecord ''golden_sqls'' ''golden-0'', RepoDeleteById ''golden-0'',
      VectorDeleteRecord ''golden_sqls'' ''zz'', RepoDeleteById ''zz'',
      LogWarning ''Golden record with id zz not found'']"
    by code_simp
  have b: "golden_sqls_db users_store \<noteq> []"
    by code_simp
  have c: "filter (\<lambda>g. \<forall>i\<in>set [''golden-0'', ''zz'']. gs_id g \<noteq> Some i)
             (golden_sqls_db users_store) = []"
    by code_simp
  have d: "golden_sql_collection users_store = ''golden_sqls''"
    by code_simp
  from remove_golden_sqls_best_effort [of "[''golden-0'', ''zz'']" users_store] a b c
  show ?thesis by (simp add: d not_found_warning_def)
qed

subsection \<open>SQLGeneration\<close>

text \<open>
  C2, as the code has it. A \<open>SQLGeneration\<close> built without a status has the status
  \<open>INVALID\<close>, one of the three values \<open>NONE\<close>, \<open>VALID\<close>, \<open>INVALID\<close> of
  \<open>SQLGenerationStatus\<close>; the field is a plain string, and a status given when the
  object is built is stored as it is given. (types.py defines no transition of the
  status.)
\<close>

theorem SQLGeneration_status_default:
  "sg_status (new_SQLGeneration clock (a\<lparr>arg_status := None\<rparr>)) = status_value INVALID
   \<and> sg_status (new_SQLGeneration clock (a\<lparr>arg_status := Some st\<rparr>)) = st
   \<and> range status_value = {''NONE'', ''VALID'', ''INVALID''}"
proof -
  have "range status_value = status_value ` {NONE, VALID, INVALID}"
    by (rule arg_cong [where f = "image status_value"])
       (auto intro: SQLGenerationStatus.exhaust)
  then show ?thesis by (simp add: new_SQLGeneration_def)
qed

text \<open>
  C2 as stated fails: a \<open>SQLGeneration\<close> built from a prompt id alone starts in status
  \<open>INVALID\<close>, not \<open>NONE\<close>, and one built with the status \<open>PENDING\<close> keeps it, a
  status outside the three values.
\<close>

theorem SQLGeneration_starts_INVALID:
  "sg_status (new_SQLGeneration 0 (only_prompt_id ''p1'')) = ''INVALID''
   \<and> sg_status (new_SQLGeneration 0 (only_prompt_id ''p1'')) \<noteq> status_value NONE
   \<and> sg_status (new_SQLGeneration 0 ((only_prompt_id ''p1'')\<lparr>arg_status := Some ''PENDING''\<rparr>))
        \<notin> {''NONE'', ''VALID'', ''INVALID''}"
  by (simp add: new_SQLGeneration_def only_prompt_id_def)

subsection \<open>DBConnectionValidation\<close>

text \<open>
  The validator accepts a connection id exactly when \<open>ObjectId\<close> does, and the classes
  deriving from \<open>DBConnectionValidation\<close> cannot be built from an id it rejects.
\<close>

lemma check_connection_id_eq:
  "check_connection_id w v =
     (if object_id_valid w v then [] else [(''db_connection_id'', ''Must be a valid ObjectId'')])"
  by (simp add: check_connection_id_def object_id_validation_def)

lemma object_id_validation_iff:
  "(object_id_validation w v = Inr v) = object_id_valid w v"
  "(object_id_validation w v = Inl (ValueError ''Must be a valid ObjectId''))
     = (\<not> object_id_valid w v)"
  by (simp_all add: object_id_validation_def)

lemma validated_requests_reject:
  assumes "\<not> object_id_valid w v"
  shows "\<exists>errors. new_DBConnectionValidation w v = Inl (ValidationError errors)"
    and "\<exists>errors. new_InstructionRequest w v text md = Inl (ValidationError errors)"
    and "\<exists>errors. new_ScannerRequest w v tables md = Inl (ValidationError errors)"
  using assms
  by (simp_all add: new_DBConnectionValidation_def new_InstructionRequest_def
        new_ScannerRequest_def build_def check_connection_id_eq)

lemma validated_requests_accept:
  assumes "object_id_valid w v"
  shows "new_DBConnectionValidation w v = Inr \<lparr>db_connection_id = v\<rparr>"
    and "new_ScannerRequest w v tables md =
           Inr \<lparr>db_connection_id = v, table_names = tables, sr_metadata = md\<rparr>"
  using assms
  by (simp_all add: new_DBConnectionValidation_def new_ScannerRequest_def build_def
        check_connection_id_eq)

lemma GoldenSQLRequest_rejects:
  "\<not> object_id_valid w v \<Longrightarrow>
     \<exists>errors. new_GoldenSQLRequest w clock v q sq created md = Inl (ValidationError errors)"
  by (simp add: new_GoldenSQLRequest_def build_def check_connection_id_eq)

text \<open>
  C6. The check is not applied to every request that refers to a \<open>db_connection_id\<close>:
  \<open>FineTuningRequest\<close> derives from \<open>BaseModel\<close>, not from \<open>DBConnectionValidation\<close>.
  For the id \<open>not-an-object-id\<close>, which the identifier format rejects, a
  \<open>ScannerRequest\<close> and an \<open>InstructionRequest\<close> fail with a \<open>ValidationError\<close>,
  and a \<open>FineTuningRequest\<close> is built.
\<close>

theorem FineTuningRequest_not_validated:
  "\<not> object_id_valid example_world ''not-an-object-id''
   \<and> new_ScannerRequest example_world ''not-an-object-id'' None None
       = Inl (ValidationError [(''db_connection_id'', ''Must be a valid ObjectId'')])
   \<and> new_InstructionRequest example_world ''not-an-object-id'' (Some ''use table users'') None
       = Inl (ValidationError [(''db_connection_id'', ''Must be a valid ObjectId'')])
   \<and> new_FineTuningRequest example_world ''not-an-object-id'' ''tuned''
         \<lparr>model_provider = None, model_name = None, model_parameters = None\<rparr> None None
       = Inr \<lparr>ft_db_connection_id = ''not-an-object-id'', ft_alias = ''tuned'',
              ft_base_llm = \<lparr>model_provider = None, model_name = None, model_parameters = None\<rparr>,
              ft_golden_sqls = None, ft_metadata = None\<rparr>"
  by (simp add: new_ScannerRequest_def new_InstructionRequest_def new_FineTuningRequest_def
        build_def check_connection_id_eq check_min_length_def example_world_def
        object_id_format_def)

end
